theory Spec2Isabelle
  imports Main "HOL-Library.Word"
begin

section \<open>JavaScript values seen by the handlers\<close>

text \<open>
  A JavaScript string is a sequence of UTF-16 code units; \<open>length\<close> counts code units,
  as \<^verbatim>\<open>name.length\<close> does.
\<close>

type_synonym jsstring = "16 word list"

text \<open>A string literal of the source (ASCII) as a JavaScript string.\<close>

definition lit :: "string \<Rightarrow> jsstring" where
  "lit s = map (\<lambda>c. of_nat (of_char c)) s"

text \<open>
  A field of \<^verbatim>\<open>req.body\<close> is any JSON value, or missing. The handlers observe four
  things of a value: whether it is \<^verbatim>\<open>undefined\<close> or \<^verbatim>\<open>null\<close>, whether it is a string
  (and which), its truthiness, and the text the database driver sends for it as a query
  parameter. \<open>JOther t txt\<close> stands for every value that is not a string (a number, a
  boolean, an array, an object) with truthiness \<open>t\<close> and parameter text \<open>txt\<close>.
\<close>

datatype jsval = JUndefined | JNull | JStr jsstring | JOther bool jsstring

fun truthy :: "jsval \<Rightarrow> bool" where
  "truthy JUndefined = False"
| "truthy JNull = False"
| "truthy (JStr s) = (s \<noteq> [])"
| "truthy (JOther t txt) = t"

text \<open>The operators \<^verbatim>\<open>a || b\<close> and \<^verbatim>\<open>a && b\<close>.\<close>

definition js_or :: "jsval \<Rightarrow> jsval \<Rightarrow> jsval" where
  "js_or a b = (if truthy a then a else b)"

definition js_and :: "jsval \<Rightarrow> jsval \<Rightarrow> jsval" where
  "js_and a b = (if truthy a then b else a)"

text \<open>
  \<^verbatim>\<open>String.prototype.trim\<close> removes WhiteSpace and LineTerminator code units from both
  ends.
\<close>

definition isWhiteSpace :: "16 word \<Rightarrow> bool" where
  "isWhiteSpace c \<longleftrightarrow>
     c \<in> {0x09, 0x0A, 0x0B, 0x0C, 0x0D, 0x20, 0xA0, 0x1680,
          0x2028, 0x2029, 0x202F, 0x205F, 0x3000, 0xFEFF}
     \<or> (0x2000 \<le> c \<and> c \<le> 0x200A)"

definition trim :: "jsstring \<Rightarrow> jsstring" where
  "trim s = rev (dropWhile isWhiteSpace (rev (dropWhile isWhiteSpace s)))"

text \<open>\<^verbatim>\<open>s.split(' ')\<close>: the pieces of \<open>s\<close> between single spaces.\<close>

fun split :: "16 word \<Rightarrow> jsstring \<Rightarrow> jsstring list" where
  "split d [] = [[]]"
| "split d (c # cs) =
     (if c = d then [] # split d cs
      else (case split d cs of [] \<Rightarrow> [[c]] | w # ws \<Rightarrow> (c # w) # ws))"

text \<open>\<^verbatim>\<open>xs[1]\<close> on an array of strings: \<^verbatim>\<open>undefined\<close> past the end.\<close>

fun index1 :: "jsstring list \<Rightarrow> jsval" where
  "index1 (a # b # rest) = JStr b"
| "index1 xs = JUndefined"

text \<open>Decimal text of a number, as a template literal renders an integer.\<close>

function dec :: "nat \<Rightarrow> jsstring" where
  "dec n = (if n < 10 then [0x30 + of_nat n]
            else dec (n div 10) @ [0x30 + of_nat (n mod 10)])"
  by pat_completeness auto
termination
  by (relation "measure id") auto

declare dec.simps [simp del]

definition show_int :: "int \<Rightarrow> jsstring" where
  "show_int i = (if i < 0 then 0x2D # dec (nat (- i)) else dec (nat i))"

section \<open>The users table\<close>

text \<open>
  One row of \<open>users\<close>, with the columns the queries name. The column \<open>id\<close> is
  numeric; every text column may hold NULL (\<open>None\<close>).
\<close>

record user_row =
  id_col :: int
  user_id_col :: "jsstring option"
  email_col :: "jsstring option"
  name_col :: "jsstring option"
  password_hash_col :: "jsstring option"
  profile_picture_col :: "jsstring option"
  wallet_address_col :: "jsstring option"
  nft_tier_col :: "jsstring option"
  created_at_col :: nat
  updated_at_col :: nat

text \<open>
  The table is the list of its rows, in the order a query without ORDER BY returns them,
  together with the sequence that assigns \<open>id\<close> at insert, and the store's comparison
  \<^verbatim>\<open>id = $n\<close> of the numeric column with a parameter that the driver sends as text.
  That comparison follows from the table's declaration, which is not part of the sources,
  so it is a parameter here. The store always answers: connection faults are not part of
  this model.
\<close>

record store =
  users :: "user_row list"
  users_id_seq :: int
  id_eq :: "int \<Rightarrow> jsstring \<Rightarrow> bool"

datatype sqlval = SNull | SInt int | SText jsstring | STime nat

definition text_val :: "jsstring option \<Rightarrow> sqlval" where
  "text_val v = (case v of None \<Rightarrow> SNull | Some s \<Rightarrow> SText s)"

text \<open>The value of a named column of a row.\<close>

definition col :: "string \<Rightarrow> user_row \<Rightarrow> sqlval" where
  "col c r =
     (if c = ''id'' then SInt (id_col r)
      else if c = ''user_id'' then text_val (user_id_col r)
      else if c = ''email'' then text_val (email_col r)
      else if c = ''name'' then text_val (name_col r)
      else if c = ''password_hash'' then text_val (password_hash_col r)
      else if c = ''profile_picture'' then text_val (profile_picture_col r)
      else if c = ''wallet_address'' then text_val (wallet_address_col r)
      else if c = ''nft_tier'' then text_val (nft_tier_col r)
      else if c = ''created_at'' then STime (created_at_col r)
      else if c = ''updated_at'' then STime (updated_at_col r)
      else SNull)"

text \<open>
  A result row of \<^verbatim>\<open>SELECT c1, ..., cn\<close> or \<^verbatim>\<open>RETURNING c1, ..., cn\<close>: the object
  with exactly these keys.
\<close>

type_synonym obj = "(string \<times> sqlval) list"

definition select :: "string list \<Rightarrow> user_row \<Rightarrow> obj" where
  "select cs r = map (\<lambda>c. (c, col c r)) cs"

text \<open>A text column read into JavaScript: NULL arrives as \<^verbatim>\<open>null\<close>.\<close>

definition js_text :: "jsstring option \<Rightarrow> jsval" where
  "js_text v = (case v of None \<Rightarrow> JNull | Some s \<Rightarrow> JStr s)"

text \<open>\<^verbatim>\<open>const { k1, ..., kn, ...rest } = user\<close>: \<open>rest\<close> is \<open>user\<close> without these keys.\<close>

definition omit :: "string list \<Rightarrow> obj \<Rightarrow> obj" where
  "omit ks u = filter (\<lambda>(k, v). k \<notin> set ks) u"

text \<open>
  The driver sends \<^verbatim>\<open>undefined\<close> and \<^verbatim>\<open>null\<close> as NULL, a string as it is, and every
  other value as its text.
\<close>

fun pg_param :: "jsval \<Rightarrow> jsstring option" where
  "pg_param JUndefined = None"
| "pg_param JNull = None"
| "pg_param (JStr s) = Some s"
| "pg_param (JOther t txt) = Some txt"

text \<open>\<^verbatim>\<open>column = $n\<close> on a text column: never true when either side is NULL.\<close>

definition sql_eq :: "jsstring option \<Rightarrow> jsstring option \<Rightarrow> bool" where
  "sql_eq c p = (case c of None \<Rightarrow> False
                 | Some a \<Rightarrow> (case p of None \<Rightarrow> False | Some b \<Rightarrow> a = b))"

definition COALESCE :: "'a option \<Rightarrow> 'a option \<Rightarrow> 'a option" where
  "COALESCE p c = (case p of None \<Rightarrow> c | Some v \<Rightarrow> Some v)"

section \<open>What the handlers take from outside\<close>

datatype error = TypeError | LibraryError

text \<open>
  The clocks and the libraries a handler calls during one request: \<^verbatim>\<open>Date.now()\<close>,
  the store's \<^verbatim>\<open>NOW()\<close>, \<^verbatim>\<open>bcrypt.hash\<close> (with the salt it draws),
  \<^verbatim>\<open>bcrypt.compare\<close> and \<^verbatim>\<open>jwt.sign\<close> of the three claims. The libraries are not
  part of the sources, so they are parameters here.
\<close>

record env =
  Date_now :: nat
  NOW :: nat
  bcrypt_hash :: "jsval \<Rightarrow> nat \<Rightarrow> error + jsstring"
  bcrypt_compare :: "jsval \<Rightarrow> jsval \<Rightarrow> error + bool"
  jwt_sign :: "int \<Rightarrow> jsstring option \<Rightarrow> jsstring option \<Rightarrow> jsstring"

section \<open>Responses\<close>

datatype json = JBoolean bool | JMessage string | JString jsstring | JObject obj

record response =
  status :: nat
  body :: "(string \<times> json) list"

definition reply :: "nat \<Rightarrow> (string \<times> json) list \<Rightarrow> response" where
  "reply st b = \<lparr>status = st, body = b\<rparr>"

text \<open>Every key of a response body, at the top level and inside a nested object.\<close>

fun nested_keys :: "json \<Rightarrow> string list" where
  "nested_keys (JObject u) = map fst u"
| "nested_keys v = []"

definition keys_of :: "response \<Rightarrow> string list" where
  "keys_of r = map fst (body r) @ concat (map (\<lambda>(k, v). nested_keys v) (body r))"

definition has_key :: "response \<Rightarrow> string \<Rightarrow> bool" where
  "has_key r k \<longleftrightarrow> k \<in> set (keys_of r)"


text \<open>The two shapes every handler answers with unless it succeeds.\<close>

definition failure :: "nat \<Rightarrow> string \<Rightarrow> response" where
  "failure st msg = reply st [(''success'', JBoolean False), (''message'', JMessage msg)]"

section \<open>Queries\<close>

text \<open>\<^verbatim>\<open>WHERE email = $1 OR user_id = $2\<close>\<close>

definition email_or_user_id :: "jsstring option \<Rightarrow> jsstring option \<Rightarrow> user_row \<Rightarrow> bool" where
  "email_or_user_id p1 p2 r \<longleftrightarrow> sql_eq (email_col r) p1 \<or> sql_eq (user_id_col r) p2"

text \<open>\<^verbatim>\<open>WHERE id = $1 OR user_id = $1\<close>\<close>

definition sql_id_eq :: "store \<Rightarrow> int \<Rightarrow> jsstring option \<Rightarrow> bool" where
  "sql_id_eq S i p = (case p of None \<Rightarrow> False | Some t \<Rightarrow> id_eq S i t)"

definition id_or_user_id :: "store \<Rightarrow> jsstring option \<Rightarrow> user_row \<Rightarrow> bool" where
  "id_or_user_id S p r \<longleftrightarrow> sql_id_eq S (id_col r) p \<or> sql_eq (user_id_col r) p"

text \<open>\<^verbatim>\<open>SELECT ... FROM users WHERE w\<close>: the matching rows, in table order.\<close>

definition SELECT :: "(user_row \<Rightarrow> bool) \<Rightarrow> store \<Rightarrow> user_row list" where
  "SELECT w S = filter w (users S)"

text \<open>
  \<^verbatim>\<open>UPDATE users SET ... WHERE w RETURNING ...\<close>: every matching row is replaced by its
  update, and the updated rows are returned.
\<close>

definition UPDATE :: "(user_row \<Rightarrow> bool) \<Rightarrow> (user_row \<Rightarrow> user_row) \<Rightarrow> store \<Rightarrow> store \<times> user_row list" where
  "UPDATE w f S =
     (S\<lparr>users := map (\<lambda>r. if w r then f r else r) (users S)\<rparr>, map f (filter w (users S)))"

text \<open>
  \<^verbatim>\<open>INSERT INTO users (...) VALUES (...) RETURNING ...\<close> of one tuple: the store assigns
  \<open>id\<close> from its sequence, appends the row and returns it (\<^verbatim>\<open>result.rows[0]\<close>).
\<close>

definition INSERT :: "user_row \<Rightarrow> store \<Rightarrow> store \<times> user_row" where
  "INSERT r S =
     (let r' = r\<lparr>id_col := users_id_seq S\<rparr>
      in (S\<lparr>users := users S @ [r'], users_id_seq := users_id_seq S + 1\<rparr>, r'))"

section \<open>The handlers of server.js\<close>

text \<open>
  Each handler takes the fields it destructures from \<^verbatim>\<open>req.body\<close> (an object, since
  the body parsers are installed), the store and the outside world, and returns its
  response with the store it leaves. A handler reads from a result row only columns its
  query selects, and the object it answers with holds exactly the selected columns. An
  exception inside \<^verbatim>\<open>try\<close> is the \<open>Inl\<close> of a library call or the TypeError of
  \<^verbatim>\<open>name.trim()\<close>; the \<^verbatim>\<open>catch\<close> block answers it with status 500.
\<close>

subsection \<open>POST /api/auth/login\<close>

definition login_columns :: "string list" where
  "login_columns = [''id'', ''user_id'', ''email'', ''name'', ''password_hash'',
     ''profile_picture'', ''wallet_address'', ''nft_tier'', ''created_at'', ''updated_at'']"

definition login :: "env \<Rightarrow> store \<Rightarrow> jsval \<Rightarrow> jsval \<Rightarrow> response \<times> store" where
  "login E S email password =
     (if \<not> truthy email \<or> \<not> truthy password then
        (failure 400 ''Email and password are required'', S)
      else
        (case SELECT (email_or_user_id (pg_param email) (pg_param email)) S of
           [] \<Rightarrow> (failure 401 ''Invalid email or password'', S)
         | user # others \<Rightarrow>
             if \<not> truthy (js_text (password_hash_col user)) then
               (failure 401 ''Account not properly set up'', S)
             else
               (case bcrypt_compare E password (js_text (password_hash_col user)) of
                  Inl err \<Rightarrow> (failure 500 ''Server error during authentication'', S)
                | Inr isValidPassword \<Rightarrow>
                    if \<not> isValidPassword then
                      (failure 401 ''Invalid email or password'', S)
                    else
                      (let safeUser = omit [''password_hash'', ''reset_code'', ''reset_code_expires'']
                                        (select login_columns user);
                           token = lit ''jwt_'' @ dec (Date_now E) @ lit ''_'' @ show_int (id_col user)
                       in (reply 200 [(''success'', JBoolean True), (''token'', JString token),
                                      (''user'', JObject safeUser),
                                      (''message'', JMessage ''Login successful'')], S)))))"

subsection \<open>POST /api/auth/register\<close>

text \<open>
  The \<open>id\<close> of the tuple handed to \<open>INSERT\<close> is a placeholder: the statement names
  no \<open>id\<close>, and the store assigns it. Columns the statement does not name are NULL.
\<close>

definition register :: "env \<Rightarrow> store \<Rightarrow> jsval \<Rightarrow> jsval \<Rightarrow> jsval \<Rightarrow> jsval \<Rightarrow> response \<times> store" where
  "register E S email password name user_id =
     (if \<not> truthy email \<or> \<not> truthy password \<or> \<not> truthy name then
        (failure 400 ''Email, password, and name are required'', S)
      else
        (let existingUser = SELECT (email_or_user_id (pg_param email) (pg_param (js_or user_id email))) S
         in if length existingUser > 0 then
              (failure 409 ''User already exists'', S)
            else
              (case bcrypt_hash E password 10 of
                 Inl err \<Rightarrow> (failure 500 ''Registration failed'', S)
               | Inr password_hash \<Rightarrow>
                   (case INSERT \<lparr>id_col = 0,
                                 user_id_col = pg_param (js_or user_id (JStr (lit ''user_'' @ dec (Date_now E)))),
                                 email_col = pg_param email,
                                 name_col = pg_param name,
                                 password_hash_col = Some password_hash,
                                 profile_picture_col = None,
                                 wallet_address_col = None,
                                 nft_tier_col = None,
                                 created_at_col = NOW E,
                                 updated_at_col = NOW E\<rparr> S of
                      (S', newUser) \<Rightarrow>
                        (reply 200 [(''success'', JBoolean True),
                                    (''message'', JMessage ''Registration successful''),
                                    (''user'', JObject (select [''id'', ''user_id'', ''email'', ''name'', ''created_at''] newUser))],
                         S')))))"

subsection \<open>POST /api/auth/update-profile\<close>

definition update_columns :: "string list" where
  "update_columns = [''id'', ''user_id'', ''email'', ''name'', ''profile_picture'', ''updated_at'']"

definition update_profile :: "env \<Rightarrow> store \<Rightarrow> jsval \<Rightarrow> jsval \<Rightarrow> jsval \<Rightarrow> response \<times> store" where
  "update_profile E S userId name profile_picture =
     (if \<not> truthy userId then
        (failure 400 ''User ID is required'', S)
      else
        (case UPDATE (id_or_user_id S (pg_param userId))
                (\<lambda>r. r\<lparr>name_col := COALESCE (pg_param name) (name_col r),
                        profile_picture_col := COALESCE (pg_param profile_picture) (profile_picture_col r),
                        updated_at_col := NOW E\<rparr>) S of
           (S', rows) \<Rightarrow>
             (case rows of
                [] \<Rightarrow> (failure 404 ''User not found'', S')
              | row # others \<Rightarrow>
                  (reply 200 [(''success'', JBoolean True), (''message'', JMessage ''Profile updated''),
                              (''user'', JObject (select update_columns row))], S'))))"

subsection \<open>GET /api/users/:userId\<close>

definition get_user :: "env \<Rightarrow> store \<Rightarrow> jsstring \<Rightarrow> response \<times> store" where
  "get_user E S userId =
     (case SELECT (id_or_user_id S (Some userId)) S of
        [] \<Rightarrow> (failure 404 ''User not found'', S)
      | row # others \<Rightarrow>
          (reply 200 [(''success'', JBoolean True),
                      (''user'', JObject (select [''id'', ''user_id'', ''email'', ''name'', ''profile_picture'',
                                                   ''wallet_address'', ''nft_tier'', ''created_at''] row))], S))"

subsection \<open>PUT /api/auth/update-profile\<close>

text \<open>
  \<open>authHeader\<close> is \<^verbatim>\<open>req.headers['authorization']\<close>: a string, or \<open>None\<close> when
  the request carries no such header. A \<open>name\<close> that is truthy and not a string has no
  \<^verbatim>\<open>trim\<close> method: the call throws a TypeError, which the handler catches.
\<close>

definition bearer :: "jsstring option \<Rightarrow> jsval" where
  "bearer authHeader =
     (case authHeader of None \<Rightarrow> JUndefined
      | Some h \<Rightarrow> js_and (JStr h) (index1 (split 0x20 h)))"

definition put_update_profile :: "env \<Rightarrow> store \<Rightarrow> jsstring option \<Rightarrow> jsval \<Rightarrow> jsval \<Rightarrow> response \<times> store" where
  "put_update_profile E S authHeader name userId =
     (let token = bearer authHeader
      in if \<not> truthy token then
           (failure 401 ''Authentication token required'', S)
         else if \<not> truthy name then
           (failure 400 ''Name is required'', S)
         else
           (case name of
              JStr s \<Rightarrow>
                if length (trim s) = 0 then
                  (failure 400 ''Name is required'', S)
                else if length s > 100 then
                  (failure 400 ''Name must be 100 characters or less'', S)
                else
                  (case UPDATE (id_or_user_id S (pg_param userId))
                          (\<lambda>r. r\<lparr>name_col := Some (trim s), updated_at_col := NOW E\<rparr>) S of
                     (S', rows) \<Rightarrow>
                       (case rows of
                          [] \<Rightarrow> (failure 404 ''User not found'', S')
                        | row # others \<Rightarrow>
                            (reply 200 [(''success'', JBoolean True),
                                        (''message'', JMessage ''Profile updated successfully''),
                                        (''user'', JObject (select update_columns row))], S')))
            | _ \<Rightarrow> (failure 500 ''Server error updating profile'', S)))"

section \<open>The handler of api/auth/login.js\<close>

definition router_login :: "env \<Rightarrow> store \<Rightarrow> jsval \<Rightarrow> jsval \<Rightarrow> response \<times> store" where
  "router_login E S email password =
     (if \<not> truthy email \<or> \<not> truthy password then
        (failure 400 ''Email and password are required'', S)
      else
        (case SELECT (email_or_user_id (pg_param email) (pg_param email)) S of
           [] \<Rightarrow> (failure 401 ''Invalid email or password'', S)
         | user # others \<Rightarrow>
             (case bcrypt_compare E password (js_text (password_hash_col user)) of
                Inl err \<Rightarrow> (failure 500 ''Server error'', S)
              | Inr isValidPassword \<Rightarrow>
                  if \<not> isValidPassword then
                    (failure 401 ''Invalid email or password'', S)
                  else
                    (let token = jwt_sign E (id_col user) (email_col user) (user_id_col user);
                         userWithoutPassword = omit [''password_hash'']
                           (select [''id'', ''user_id'', ''email'', ''name'', ''password_hash''] user)
                     in (reply 200 [(''success'', JBoolean True), (''token'', JString token),
                                    (''user'', JObject userWithoutPassword)], S)))))"

section \<open>Requests\<close>

datatype request =
    PostLogin jsval jsval
  | RouterLogin jsval jsval
  | PostRegister jsval jsval jsval jsval
  | PostUpdateProfile jsval jsval jsval
  | PutUpdateProfile "jsstring option" jsval jsval
  | GetUser jsstring

fun handle :: "env \<Rightarrow> store \<Rightarrow> request \<Rightarrow> response \<times> store" where
  "handle E S (PostLogin email password) = login E S email password"
| "handle E S (RouterLogin email password) = router_login E S email password"
| "handle E S (PostRegister email password name user_id) = register E S email password name user_id"
| "handle E S (PostUpdateProfile userId name profile_picture) = update_profile E S userId name profile_picture"
| "handle E S (PutUpdateProfile authHeader name userId) = put_update_profile E S authHeader name userId"
| "handle E S (GetUser userId) = get_user E S userId"

section \<open>The order in which server.js registers its routes\<close>

text \<open>
  Express offers a request to the registered layers in the order of registration, and the
  first layer that takes it and answers ends the dispatch. The routes of server.js, in
  that order: six routes, then \<^verbatim>\<open>app.use('*', ...)\<close>, which takes every request and
  answers 404 with \<open>Endpoint not found\<close>, and after it
  \<^verbatim>\<open>app.put('/api/auth/update-profile', ...)\<close>. The layers registered before the first
  route (CORS, the body parsers, the static files) pass a PUT request on, and the error
  middleware takes errors only; they are left out. How Express matches a path against a
  route's pattern is a parameter.
\<close>

datatype layer = Route string string | UseAll

definition server_layers :: "layer list" where
  "server_layers =
     [Route ''POST'' ''/api/auth/login'',
      Route ''POST'' ''/api/auth/register'',
      Route ''POST'' ''/api/auth/update-profile'',
      Route ''GET'' ''/api/health'',
      Route ''GET'' ''/api/users/:userId'',
      Route ''GET'' ''/'',
      UseAll,
      Route ''PUT'' ''/api/auth/update-profile'']"

fun takes :: "(string \<Rightarrow> string \<Rightarrow> bool) \<Rightarrow> layer \<Rightarrow> string \<Rightarrow> string \<Rightarrow> bool" where
  "takes path_matches (Route method pattern) m path \<longleftrightarrow> method = m \<and> path_matches pattern path"
| "takes path_matches UseAll m path \<longleftrightarrow> True"

definition dispatch :: "(string \<Rightarrow> string \<Rightarrow> bool) \<Rightarrow> string \<Rightarrow> string \<Rightarrow> layer option" where
  "dispatch path_matches m path = find (\<lambda>l. takes path_matches l m path) server_layers"

section \<open>A small store and stand-ins for the libraries, for the examples\<close>

text \<open>
  The examples below run the handlers on this data. The stand-in for bcrypt hashes a
  string by putting a fixed prefix before it, compares accordingly, and rejects every
  argument that is not a string, as the library does.
\<close>

definition example_hash :: "jsval \<Rightarrow> nat \<Rightarrow> error + jsstring" where
  "example_hash p rounds = (case p of JStr s \<Rightarrow> Inr (lit ''$2b$10$'' @ s) | _ \<Rightarrow> Inl LibraryError)"

definition example_compare :: "jsval \<Rightarrow> jsval \<Rightarrow> error + bool" where
  "example_compare p h =
     (case p of
        JStr s \<Rightarrow> (case h of JStr t \<Rightarrow> Inr (t = lit ''$2b$10$'' @ s) | _ \<Rightarrow> Inl LibraryError)
      | _ \<Rightarrow> Inl LibraryError)"

definition example_env :: "nat \<Rightarrow> env" where
  "example_env t = \<lparr>Date_now = 1000 * t, NOW = t, bcrypt_hash = example_hash,
     bcrypt_compare = example_compare, jwt_sign = (\<lambda>i e u. lit ''signed'')\<rparr>"

definition ann :: user_row where
  "ann = \<lparr>id_col = 1, user_id_col = Some (lit ''u1''), email_col = Some (lit ''a@x.com''),
     name_col = Some (lit ''Ann''), password_hash_col = Some (lit ''$2b$10$secret123''),
     profile_picture_col = None, wallet_address_col = None, nft_tier_col = None,
     created_at_col = 10, updated_at_col = 10\<rparr>"

definition bob :: user_row where
  "bob = \<lparr>id_col = 2, user_id_col = Some (lit ''u2''), email_col = Some (lit ''b@x.com''),
     name_col = Some (lit ''Bob''), password_hash_col = None,
     profile_picture_col = Some (lit ''bob.png''), wallet_address_col = None, nft_tier_col = None,
     created_at_col = 20, updated_at_col = 20\<rparr>"

definition example_store :: store where
  "example_store = \<lparr>users = [ann, bob], users_id_seq = 3, id_eq = (\<lambda>i t. t = show_int i)\<rparr>"

section \<open>Facts about the helpers\<close>


lemma users_UPDATE: "users (fst (UPDATE w f S)) = map (\<lambda>r. if w r then f r else r) (users S)"
  by (simp add: UPDATE_def)

lemma rows_UPDATE: "snd (UPDATE w f S) = map f (filter w (users S))"
  by (simp add: UPDATE_def)









text \<open>The keys of a response.\<close>

lemma keys_select: "map fst (select cs r) = cs"
  by (induction cs) (simp_all add: select_def)

lemma keys_omit: "map fst (omit ks u) = filter (\<lambda>k. k \<notin> set ks) (map fst u)"
  by (induction u) (auto simp add: omit_def)

lemma keys_of_failure: "keys_of (failure st msg) = [''success'', ''message'']"
  by (simp add: keys_of_def failure_def reply_def)

lemma no_hash_in_login: "\<not> has_key (fst (login E S email password)) ''password_hash''"
  by (simp add: login_def has_key_def keys_of_failure Let_def split: list.splits sum.splits)
     (simp add: keys_of_def reply_def keys_omit keys_select login_columns_def)

lemma no_hash_in_router_login: "\<not> has_key (fst (router_login E S email password)) ''password_hash''"
  by (simp add: router_login_def has_key_def keys_of_failure Let_def split: list.splits sum.splits)
     (simp add: keys_of_def reply_def keys_omit keys_select)

lemma no_hash_in_register: "\<not> has_key (fst (register E S email password name user_id)) ''password_hash''"
  by (simp add: register_def has_key_def keys_of_failure Let_def INSERT_def split: list.splits sum.splits)
     (simp add: keys_of_def reply_def keys_select)

lemma no_hash_in_update_profile:
  "\<not> has_key (fst (update_profile E S userId name profile_picture)) ''password_hash''"
  by (simp add: update_profile_def has_key_def keys_of_failure UPDATE_def split: list.splits)
     (simp add: keys_of_def reply_def keys_select update_columns_def)

lemma no_hash_in_put_update_profile:
  "\<not> has_key (fst (put_update_profile E S authHeader name userId)) ''password_hash''"
  by (simp add: put_update_profile_def has_key_def keys_of_failure UPDATE_def Let_def
        split: list.splits jsval.splits)
     (simp add: keys_of_def reply_def keys_select update_columns_def)

lemma no_hash_in_get_user: "\<not> has_key (fst (get_user E S userId)) ''password_hash''"
  by (simp add: get_user_def has_key_def keys_of_failure split: list.splits)
     (simp add: keys_of_def reply_def keys_select)



section \<open>PUT update-profile: the token guard\<close>




section \<open>PUT update-profile: the length limit\<close>




section \<open>PUT update-profile: what happens to the name\<close>




section \<open>Login with a wrong password\<close>



section \<open>Login when the stored hash is absent\<close>

text \<open>
  Claim C3 asks both login handlers to answer 401 with \<open>Account not properly set up\<close>
  when the matched row has no password hash, before any verification. The handler of
  server.js does so. The handler of api/auth/login.js has no such guard: on the row of
  \<open>bob\<close>, whose hash is NULL, it calls \<^verbatim>\<open>bcrypt.compare(password, null)\<close> and its
  answer is never that message, whatever the library does; with a library that rejects a
  hash that is not a string the answer is 500 with \<open>Server error\<close>.
\<close>

theorem router_login_absent_hash:
  "password_hash_col bob = None
   \<and> fst (login E example_store (JStr (lit ''b@x.com'')) (JStr (lit ''secret123'')))
       = failure 401 ''Account not properly set up''
   \<and> fst (router_login E example_store (JStr (lit ''b@x.com'')) (JStr (lit ''secret123'')))
       \<noteq> failure 401 ''Account not properly set up''
   \<and> fst (router_login (example_env 30) example_store (JStr (lit ''b@x.com'')) (JStr (lit ''secret123'')))
       = failure 500 ''Server error''"
proof -
  have sel: "SELECT (email_or_user_id (Some (lit ''b@x.com'')) (Some (lit ''b@x.com''))) example_store = [bob]"
    by (simp add: SELECT_def email_or_user_id_def sql_eq_def example_store_def ann_def bob_def lit_def)
  have nohash: "password_hash_col bob = None"
    by (simp add: bob_def)
  have ne: "lit ''b@x.com'' \<noteq> []" "lit ''secret123'' \<noteq> []"
    by (simp_all add: lit_def)
  have a: "fst (login E example_store (JStr (lit ''b@x.com'')) (JStr (lit ''secret123'')))
       = failure 401 ''Account not properly set up''"
    by (simp add: login_def sel nohash ne js_text_def)
  have b: "fst (router_login E example_store (JStr (lit ''b@x.com'')) (JStr (lit ''secret123'')))
       \<noteq> failure 401 ''Account not properly set up''"
    by (simp add: router_login_def sel nohash ne js_text_def failure_def reply_def split: sum.splits)
  have c: "fst (router_login (example_env 30) example_store (JStr (lit ''b@x.com'')) (JStr (lit ''secret123'')))
       = failure 500 ''Server error''"
    by (simp add: router_login_def sel nohash ne js_text_def example_env_def example_compare_def)
  from nohash a b c show ?thesis by blast
qed

theorem router_login_absent_hash_witness:
  "fst (login (example_env 30) example_store (JStr (lit ''b@x.com'')) (JStr (lit ''secret123'')))
       = failure 401 ''Account not properly set up''
   \<and> status (fst (router_login (example_env 30) example_store (JStr (lit ''b@x.com'')) (JStr (lit ''secret123'')))) = 500"
  using router_login_absent_hash [of "example_env 30"]
  by (simp add: failure_def reply_def)

section \<open>POST update-profile is a partial update\<close>



section \<open>Updating the profile twice\<close>




section \<open>No response carries the password hash\<close>

text \<open>
  Claim C1: whatever the request to login (either handler), register, get-user-by-id or
  update-profile (either verb), whatever the store holds and whatever the libraries
  return, the response body has no \<open>password_hash\<close> key, neither at the top level nor
  inside the \<open>user\<close> object; this covers the success and the failure responses.
\<close>

theorem no_password_hash_in_any_response:
  "\<not> has_key (fst (handle E S req)) ''password_hash''"
  by (cases req)
     (simp_all add: no_hash_in_login no_hash_in_router_login no_hash_in_register
        no_hash_in_update_profile no_hash_in_put_update_profile no_hash_in_get_user)

theorem no_password_hash_in_any_response_witness:
  "status (fst (handle (example_env 30) example_store (PostLogin (JStr (lit ''a@x.com'')) (JStr (lit ''secret123''))))) = 200
   \<and> has_key (fst (handle (example_env 30) example_store (PostLogin (JStr (lit ''a@x.com'')) (JStr (lit ''secret123''))))) ''email''
   \<and> \<not> has_key (fst (handle (example_env 30) example_store (PostLogin (JStr (lit ''a@x.com'')) (JStr (lit ''secret123''))))) ''password_hash''"
proof -
  have sel: "SELECT (email_or_user_id (Some (lit ''a@x.com'')) (Some (lit ''a@x.com''))) example_store = [ann]"
    by (simp add: SELECT_def email_or_user_id_def sql_eq_def example_store_def ann_def bob_def lit_def)
  have ok: "bcrypt_compare (example_env 30) (JStr (lit ''secret123'')) (JStr (lit ''$2b$10$secret123'')) = Inr True"
    by (simp add: example_env_def example_compare_def lit_def)
  have ne: "lit ''a@x.com'' \<noteq> []" "lit ''secret123'' \<noteq> []" "lit ''$2b$10$secret123'' \<noteq> []"
    by (simp_all add: lit_def)
  have hash: "password_hash_col ann = Some (lit ''$2b$10$secret123'')"
    by (simp add: ann_def)
  have r: "fst (login (example_env 30) example_store (JStr (lit ''a@x.com'')) (JStr (lit ''secret123'')))
      = reply 200 [(''success'', JBoolean True),
                   (''token'', JString (lit ''jwt_'' @ dec (Date_now (example_env 30)) @ lit ''_'' @ show_int (id_col ann))),
                   (''user'', JObject (omit [''password_hash'', ''reset_code'', ''reset_code_expires''] (select login_columns ann))),
                   (''message'', JMessage ''Login successful'')]"
    by (simp add: login_def sel ne hash js_text_def ok)
  have st: "status (fst (handle (example_env 30) example_store (PostLogin (JStr (lit ''a@x.com'')) (JStr (lit ''secret123''))))) = 200"
    by (simp add: r reply_def)
  have em: "has_key (fst (handle (example_env 30) example_store (PostLogin (JStr (lit ''a@x.com'')) (JStr (lit ''secret123''))))) ''email''"
    by (simp add: r has_key_def keys_of_def reply_def keys_omit keys_select login_columns_def)
  from st em no_password_hash_in_any_response [of "example_env 30" example_store "PostLogin (JStr (lit ''a@x.com'')) (JStr (lit ''secret123''))"]
  show ?thesis by blast
qed

section \<open>Registration without a user_id\<close>



section \<open>Register, then log in\<close>




section \<open>The PUT route is registered after the catch-all\<close>

text \<open>
  Whatever the path and however paths are matched, a PUT request is taken by the
  catch-all layer, which answers 404: no route registered before it is a PUT route. The
  theorems above on the PUT variant of update-profile are about its handler, which the
  dispatch of server.js does not reach.
\<close>

lemma put_request_meets_catch_all: "dispatch path_matches ''PUT'' path = Some UseAll"
  by (simp add: dispatch_def server_layers_def)

lemma post_update_profile_is_reached:
  "path_matches ''/api/auth/update-profile'' path \<Longrightarrow>
   \<not> path_matches ''/api/auth/login'' path \<Longrightarrow> \<not> path_matches ''/api/auth/register'' path \<Longrightarrow>
   dispatch path_matches ''POST'' path = Some (Route ''POST'' ''/api/auth/update-profile'')"
  by (simp add: dispatch_def server_layers_def)

end
